theory Spec2Isabelle
  imports Complex_Main "HOL-Library.Sublist" "HOL-Library.Char_ord" "HOL-Library.List_Lexorder"
    "HOL-Library.Product_Lexorder"
begin

section \<open>Data model\<close>

text \<open>
  The dashboard script keeps one table: the rows of \<open>bird_monitoring\<close> as selected by
  \<open>load_data\<close>, with \<open>Date\<close> normalised to a timestamp and the derived columns
  \<open>Year\<close> and \<open>Month\<close>. A missing value (\<open>None\<close>, \<open>NaN\<close>, \<open>NaT\<close>) is \<open>None\<close>.
\<close>

datatype month = Jan | Feb | Mar | Apr | May | Jun | Jul | Aug | Sep | Oct | Nov | Dec

fun month_num :: "month \<Rightarrow> nat" where
  "month_num Jan = 1" | "month_num Feb = 2" | "month_num Mar = 3" | "month_num Apr = 4"
| "month_num May = 5" | "month_num Jun = 6" | "month_num Jul = 7" | "month_num Aug = 8"
| "month_num Sep = 9" | "month_num Oct = 10" | "month_num Nov = 11" | "month_num Dec = 12"

text \<open>A calendar date, as the date picker gives it (\<open>datetime.date\<close>).\<close>

record date =
  d_year :: int
  d_month :: month
  d_day :: nat

text \<open>A timestamp: a calendar date and the nanoseconds since midnight.\<close>

record timestamp =
  ts_year :: int
  ts_month :: month
  ts_day :: nat
  ts_nanos :: nat

definition ts_le :: "timestamp \<Rightarrow> timestamp \<Rightarrow> bool" where
  "ts_le a b =
     (ts_year a < ts_year b \<or> ts_year a = ts_year b \<and>
       (month_num (ts_month a) < month_num (ts_month b) \<or> ts_month a = ts_month b \<and>
         (ts_day a < ts_day b \<or> ts_day a = ts_day b \<and> ts_nanos a \<le> ts_nanos b)))"

text \<open>\<open>pd.to_datetime\<close> of a \<open>datetime.date\<close>: midnight of that day.\<close>

definition to_datetime_date :: "date \<Rightarrow> timestamp" where
  "to_datetime_date d =
     \<lparr>ts_year = d_year d, ts_month = d_month d, ts_day = d_day d, ts_nanos = 0\<rparr>"

text \<open>
  The fourteen columns of the \<open>SELECT\<close>, with the type of \<open>Date\<close> left open: it is
  the stored text before \<open>pd.to_datetime\<close> and a timestamp after.
\<close>

record 'd observation =
  Plot_Name :: "string option"
  Date :: "'d option"
  Observer :: "string option"
  Common_Name :: "string option"
  Scientific_Name :: "string option"
  Distance :: "string option"
  Sex :: "string option"
  Temperature :: "real option"
  Humidity :: "real option"
  Sky :: "string option"
  Wind :: "string option"
  Start_Time :: "string option"
  End_Time :: "string option"
  PIF_Watchlist_Status :: "int option"

record row = "timestamp observation" +
  Year :: "int option"
  Month :: "string option"

text \<open>
  A data frame: its column labels, and its rows, each under its index label.
\<close>

record dataframe =
  columns :: "string list"
  body :: "(nat \<times> row) list"

definition rows :: "dataframe \<Rightarrow> row list" where
  "rows df = map snd (body df)"

definition len :: "dataframe \<Rightarrow> nat" where
  "len df = length (body df)"

definition empty_df :: "dataframe \<Rightarrow> bool" where
  "empty_df df = (body df = [])"

section \<open>Loading\<close>

datatype py_error = ValueError | ParserError

text \<open>
  The \<open>errors\<close> argument of \<open>pd.to_datetime\<close>: \<open>"raise"\<close> (the default) or
  \<open>"coerce"\<close>.
\<close>

datatype errors_arg = Raise | Coerce

text \<open>
  \<open>pd.to_datetime\<close> on a column of stored texts. How one text is read is the library's
  business: \<open>parse\<close> answers the timestamp, or \<open>None\<close> for a text it cannot read. A
  missing value becomes \<open>NaT\<close>. With \<open>Raise\<close> the first unreadable text ends the call
  with an error; with \<open>Coerce\<close> it becomes \<open>NaT\<close>.
\<close>

fun to_datetime ::
  "errors_arg \<Rightarrow> (string \<Rightarrow> timestamp option) \<Rightarrow> string option list
     \<Rightarrow> py_error + timestamp option list" where
  "to_datetime errors parse [] = Inr []"
| "to_datetime errors parse (None # vs) =
     (case to_datetime errors parse vs of
        Inl e \<Rightarrow> Inl e
      | Inr ts \<Rightarrow> Inr (None # ts))"
| "to_datetime errors parse (Some v # vs) =
     (case parse v of
        Some t \<Rightarrow>
          (case to_datetime errors parse vs of
             Inl e \<Rightarrow> Inl e
           | Inr ts \<Rightarrow> Inr (Some t # ts))
      | None \<Rightarrow>
          (case errors of
             Raise \<Rightarrow> Inl ParserError
           | Coerce \<Rightarrow>
               (case to_datetime errors parse vs of
                  Inl e \<Rightarrow> Inl e
                | Inr ts \<Rightarrow> Inr (None # ts))))"

text \<open>\<open>strftime("%b")\<close>: the abbreviated month name.\<close>

fun strftime_b :: "month \<Rightarrow> string" where
  "strftime_b Jan = ''Jan''" | "strftime_b Feb = ''Feb''" | "strftime_b Mar = ''Mar''"
| "strftime_b Apr = ''Apr''" | "strftime_b May = ''May''" | "strftime_b Jun = ''Jun''"
| "strftime_b Jul = ''Jul''" | "strftime_b Aug = ''Aug''" | "strftime_b Sep = ''Sep''"
| "strftime_b Oct = ''Oct''" | "strftime_b Nov = ''Nov''" | "strftime_b Dec = ''Dec''"

text \<open>The column labels of the \<open>SELECT\<close>.\<close>

definition source_columns :: "string list" where
  "source_columns =
     [''Plot_Name'', ''Date'', ''Observer'', ''Common_Name'', ''Scientific_Name'',
      ''Distance'', ''Sex'', ''Temperature'', ''Humidity'', ''Sky'', ''Wind'',
      ''Start_Time'', ''End_Time'', ''PIF_Watchlist_Status'']"

text \<open>
  One row after the three assignments of \<open>load_data\<close>: \<open>Date\<close> replaced by the
  converted value \<open>d\<close>, \<open>Year\<close> and \<open>Month\<close> read off it (\<open>.dt.year\<close> and
  \<open>.dt.strftime\<close> are missing where the date is).
\<close>

definition with_dates :: "string observation \<Rightarrow> timestamp option \<Rightarrow> row" where
  "with_dates r d =
     \<lparr>Plot_Name = Plot_Name r, Date = d, Observer = Observer r,
      Common_Name = Common_Name r, Scientific_Name = Scientific_Name r,
      Distance = Distance r, Sex = Sex r, Temperature = Temperature r,
      Humidity = Humidity r, Sky = Sky r, Wind = Wind r,
      Start_Time = Start_Time r, End_Time = End_Time r,
      PIF_Watchlist_Status = PIF_Watchlist_Status r,
      Year = map_option ts_year d,
      Month = map_option (\<lambda>t. strftime_b (ts_month t)) d\<rparr>"

text \<open>
  \<open>load_data\<close>, given what the query returns (the connection is outside the model).
\<close>

definition load_data ::
  "(string \<Rightarrow> timestamp option) \<Rightarrow> string observation list \<Rightarrow> py_error + dataframe" where
  "load_data parse result_set =
     (case to_datetime Coerce parse (map Date result_set) of
        Inl e \<Rightarrow> Inl e
      | Inr dates \<Rightarrow>
          Inr \<lparr>columns = source_columns @ [''Year''] @ [''Month''],
               body = zip [0..<length result_set] (map2 with_dates result_set dates)\<rparr>)"

text \<open>
  What \<open>errors="coerce"\<close> makes of one stored value: the timestamp read from it, or
  the missing marker when the value is missing or cannot be read.
\<close>

definition coerced :: "(string \<Rightarrow> timestamp option) \<Rightarrow> string option \<Rightarrow> timestamp option" where
  "coerced parse v = (case v of None \<Rightarrow> None | Some s \<Rightarrow> parse s)"

section \<open>Filtering\<close>

text \<open>
  What \<open>st.date_input\<close> hands to \<open>apply_filters\<close>: a single date, a tuple of dates
  (the widget's range mode), or, from another caller, a list of dates or \<open>None\<close>.
\<close>

datatype date_input =
  NoDate
| SingleDate date
| DateTuple "date list"
| DateList "date list"

text \<open>
  \<open>isinstance(date_range, list)\<close>, and the dates a date-range input holds (its
  endpoints; \<open>len\<close> and indexing for a list or a tuple).
\<close>

fun isinstance_list :: "date_input \<Rightarrow> bool" where
  "isinstance_list (DateList ds) = True"
| "isinstance_list other = False"

fun items :: "date_input \<Rightarrow> date list" where
  "items (DateList ds) = ds"
| "items (DateTuple ds) = ds"
| "items (SingleDate d) = [d]"
| "items NoDate = []"

text \<open>\<open>Series.isin\<close> against a list of strings: a missing value is in no list.\<close>

definition isin :: "string option \<Rightarrow> string list \<Rightarrow> bool" where
  "isin v vals = (case v of None \<Rightarrow> False | Some s \<Rightarrow> s \<in> set vals)"

text \<open>\<open>Series >= Timestamp\<close> and \<open>Series <= Timestamp\<close>: false on \<open>NaT\<close>.\<close>

definition ge_ts :: "timestamp option \<Rightarrow> timestamp \<Rightarrow> bool" where
  "ge_ts v t = (case v of None \<Rightarrow> False | Some u \<Rightarrow> ts_le t u)"

definition le_ts :: "timestamp option \<Rightarrow> timestamp \<Rightarrow> bool" where
  "le_ts v t = (case v of None \<Rightarrow> False | Some u \<Rightarrow> ts_le u t)"

text \<open>\<open>fdf[mask]\<close>: the rows where the mask holds, each with its index label.\<close>

definition select_rows :: "(row \<Rightarrow> bool) \<Rightarrow> dataframe \<Rightarrow> dataframe" where
  "select_rows p df = df\<lparr>body := filter (\<lambda>ir. p (snd ir)) (body df)\<rparr>"

text \<open>\<open>reset_index(drop=True)\<close>: the labels become \<open>0, 1, ...\<close>.\<close>

definition reset_index_drop :: "dataframe \<Rightarrow> dataframe" where
  "reset_index_drop df = df\<lparr>body := zip [0..<length (body df)] (map snd (body df))\<rparr>"

definition copy :: "dataframe \<Rightarrow> dataframe" where
  "copy df = df"

definition filter_observers :: "string list \<Rightarrow> dataframe \<Rightarrow> dataframe" where
  "filter_observers observers fdf =
     (if observers \<noteq> [] then select_rows (\<lambda>r. isin (Observer r) observers) fdf else fdf)"

definition filter_plots :: "string list \<Rightarrow> dataframe \<Rightarrow> dataframe" where
  "filter_plots plots fdf =
     (if plots \<noteq> [] then select_rows (\<lambda>r. isin (Plot_Name r) plots) fdf else fdf)"

definition filter_species :: "string list \<Rightarrow> dataframe \<Rightarrow> dataframe" where
  "filter_species species fdf =
     (if species \<noteq> [] then select_rows (\<lambda>r. isin (Common_Name r) species) fdf else fdf)"

definition in_range :: "date \<Rightarrow> date \<Rightarrow> row \<Rightarrow> bool" where
  "in_range lo hi r =
     (ge_ts (Date r) (to_datetime_date lo) \<and> le_ts (Date r) (to_datetime_date hi))"

definition filter_dates :: "date_input \<Rightarrow> dataframe \<Rightarrow> dataframe" where
  "filter_dates date_range fdf =
     (if isinstance_list date_range \<and> length (items date_range) = 2
      then select_rows (in_range (items date_range ! 0) (items date_range ! 1)) fdf
      else fdf)"

definition apply_filters ::
  "dataframe \<Rightarrow> string list \<Rightarrow> string list \<Rightarrow> string list \<Rightarrow> date_input \<Rightarrow> dataframe" where
  "apply_filters df observers plots species date_range =
     reset_index_drop
       (filter_dates date_range
         (filter_species species
           (filter_plots plots
             (filter_observers observers (copy df)))))"

text \<open>
  The contract of the filter in the specification's words: a record is kept when it
  satisfies the conjunction of all non-empty selections.
\<close>

definition satisfies ::
  "string list \<Rightarrow> string list \<Rightarrow> string list \<Rightarrow> date_input \<Rightarrow> row \<Rightarrow> bool" where
  "satisfies observers plots species date_range r =
     ((observers = [] \<or> isin (Observer r) observers) \<and>
      (plots = [] \<or> isin (Plot_Name r) plots) \<and>
      (species = [] \<or> isin (Common_Name r) species) \<and>
      (case date_range of
         DateList [lo, hi] \<Rightarrow> in_range lo hi r
       | other \<Rightarrow> True))"

subsection \<open>The filter over a store of objects\<close>

text \<open>
  Data frames are objects: a variable holds a reference. The store lists the objects,
  a reference is a position in it. \<open>df.copy()\<close>, \<open>fdf[mask]\<close> and
  \<open>reset_index(drop=True)\<close> (without \<open>inplace\<close>) each build a new object and leave
  their operand as it is; \<open>fdf = ...\<close> rebinds the local variable.
\<close>

type_synonym store = "dataframe list"
type_synonym ref = nat

definition alloc :: "store \<Rightarrow> dataframe \<Rightarrow> ref \<times> store" where
  "alloc s v = (length s, s @ [v])"

definition copy_st :: "store \<Rightarrow> ref \<Rightarrow> ref \<times> store" where
  "copy_st s a = alloc s (copy (s ! a))"

definition select_st :: "(row \<Rightarrow> bool) \<Rightarrow> store \<Rightarrow> ref \<Rightarrow> ref \<times> store" where
  "select_st p s a = alloc s (select_rows p (s ! a))"

definition reset_index_st :: "store \<Rightarrow> ref \<Rightarrow> ref \<times> store" where
  "reset_index_st s a = alloc s (reset_index_drop (s ! a))"

text \<open>
  \<open>apply_filters\<close> on the store. A reference that is not in the store cannot be passed
  in Python; the model answers \<open>None\<close> there.
\<close>

definition apply_filters_st ::
  "store \<Rightarrow> ref \<Rightarrow> string list \<Rightarrow> string list \<Rightarrow> string list \<Rightarrow> date_input
     \<Rightarrow> (ref \<times> store) option" where
  "apply_filters_st s df observers plots species date_range =
     (if df < length s then
        (let (fdf, s) = copy_st s df;
             (fdf, s) = (if observers \<noteq> []
                         then select_st (\<lambda>r. isin (Observer r) observers) s fdf
                         else (fdf, s));
             (fdf, s) = (if plots \<noteq> []
                         then select_st (\<lambda>r. isin (Plot_Name r) plots) s fdf
                         else (fdf, s));
             (fdf, s) = (if species \<noteq> []
                         then select_st (\<lambda>r. isin (Common_Name r) species) s fdf
                         else (fdf, s));
             (fdf, s) = (if isinstance_list date_range \<and> length (items date_range) = 2
                         then select_st
                                (in_range (items date_range ! 0) (items date_range ! 1)) s fdf
                         else (fdf, s))
         in Some (reset_index_st s fdf))
      else None)"

section \<open>Aggregates\<close>

subsection \<open>Top species\<close>

text \<open>
  \<open>Series.value_counts()\<close>: missing values are dropped, each distinct value is counted
  (the table of counts is built in order of first appearance), and the table is sorted
  by count, largest first. Which of two values with the same count comes first is left
  to the library's sort; the model keeps them in order of first appearance.
\<close>

fun bump :: "string \<Rightarrow> (string \<times> nat) list \<Rightarrow> (string \<times> nat) list" where
  "bump k [] = [(k, 1)]"
| "bump k ((k', c) # kcs) = (if k = k' then (k', c + 1) # kcs else (k', c) # bump k kcs)"

fun count_values :: "(string \<times> nat) list \<Rightarrow> string option list \<Rightarrow> (string \<times> nat) list" where
  "count_values acc [] = acc"
| "count_values acc (None # vs) = count_values acc vs"
| "count_values acc (Some k # vs) = count_values (bump k acc) vs"

text \<open>The count a table of counts holds for a value, \<open>0\<close> when it has none.\<close>

definition tally :: "(string \<times> nat) list \<Rightarrow> string \<Rightarrow> nat" where
  "tally acc k = (case map_of acc k of None \<Rightarrow> 0 | Some c \<Rightarrow> c)"

definition sort_desc :: "(string \<times> nat) list \<Rightarrow> (string \<times> nat) list" where
  "sort_desc kcs = sort_key (\<lambda>kc. - int (snd kc)) kcs"

definition value_counts :: "string option list \<Rightarrow> (string \<times> nat) list" where
  "value_counts vs = sort_desc (count_values [] vs)"

text \<open>\<open>Series.nlargest(n)\<close>: the \<open>n\<close> largest entries, largest first.\<close>

definition nlargest :: "nat \<Rightarrow> (string \<times> nat) list \<Rightarrow> (string \<times> nat) list" where
  "nlargest n kcs = take n (sort_desc kcs)"

text \<open>
  The two top-N tables, as rows of \<open>(Common_Name, Count)\<close>; \<open>reset_index\<close> and the
  renaming only label the two columns.
\<close>

definition pie_data :: "dataframe \<Rightarrow> (string \<times> nat) list" where
  "pie_data filtered_df = nlargest 10 (value_counts (map Common_Name (rows filtered_df)))"

definition bar_df :: "dataframe \<Rightarrow> (string \<times> nat) list" where
  "bar_df filtered_df = nlargest 15 (value_counts (map Common_Name (rows filtered_df)))"

definition descending :: "(string \<times> nat) list \<Rightarrow> bool" where
  "descending kcs = sorted_wrt (\<lambda>a b. snd b \<le> snd a) kcs"

subsection \<open>Sampling\<close>

text \<open>
  \<open>sample(n=...)\<close> draws \<open>n\<close> rows without replacement: an error when \<open>n\<close> exceeds
  the number of rows, else the first \<open>n\<close> rows of a random rearrangement. The random
  source is the parameter \<open>shuffle\<close>.
\<close>

definition sample :: "('a list \<Rightarrow> 'a list) \<Rightarrow> nat \<Rightarrow> 'a list \<Rightarrow> py_error + 'a list" where
  "sample shuffle n xs = (if length xs < n then Inl ValueError else Inr (take n (shuffle xs)))"

text \<open>\<open>filtered_df.sample(n=min(1000, len(filtered_df)))\<close>, the stacked-bar sample.\<close>

definition sb_data ::
  "((nat \<times> row) list \<Rightarrow> (nat \<times> row) list) \<Rightarrow> dataframe \<Rightarrow> py_error + (nat \<times> row) list" where
  "sb_data shuffle filtered_df = sample shuffle (min 1000 (len filtered_df)) (body filtered_df)"

text \<open>
  \<open>filtered_df[["Temperature", "Common_Name"]].dropna()\<close>: the two columns, without
  the rows where either is missing.
\<close>

definition temperature_species :: "dataframe \<Rightarrow> (nat \<times> real option \<times> string option) list" where
  "temperature_species filtered_df =
     map (\<lambda>ir. (fst ir, Temperature (snd ir), Common_Name (snd ir))) (body filtered_df)"

definition dropna :: "(nat \<times> real option \<times> string option) list \<Rightarrow> (nat \<times> real option \<times> string option) list" where
  "dropna xs = filter (\<lambda>x. fst (snd x) \<noteq> None \<and> snd (snd x) \<noteq> None) xs"

definition temp_df ::
  "((nat \<times> real option \<times> string option) list \<Rightarrow> (nat \<times> real option \<times> string option) list)
     \<Rightarrow> dataframe \<Rightarrow> py_error + (nat \<times> real option \<times> string option) list" where
  "temp_df shuffle filtered_df =
     sample shuffle (min 1000 (len filtered_df)) (dropna (temperature_species filtered_df))"

subsection \<open>Watch list\<close>






subsection \<open>Heat map\<close>

text \<open>
  \<open>groupby(keys).size()\<close>: rows with a missing key are left out, the groups come in
  the order of their keys.
\<close>

definition groupby_size :: "('k::linorder) option list \<Rightarrow> ('k \<times> nat) list" where
  "groupby_size ks =
     (let present = concat (map (\<lambda>k. case k of None \<Rightarrow> [] | Some x \<Rightarrow> [x]) ks)
      in map (\<lambda>k. (k, count_list present k)) (sort (remdups present)))"

definition year_month :: "row \<Rightarrow> (int \<times> string) option" where
  "year_month r =
     (case Year r of
        None \<Rightarrow> None
      | Some y \<Rightarrow> (case Month r of None \<Rightarrow> None | Some m \<Rightarrow> Some (y, m)))"

definition heatmap_df :: "dataframe \<Rightarrow> ((int \<times> string) \<times> nat) list" where
  "heatmap_df filtered_df = groupby_size (map year_month (rows filtered_df))"

text \<open>
  A pivoted table: row labels, column labels, and one list of cells for each row label;
  \<open>None\<close> is a missing cell (\<open>NaN\<close>).
\<close>

record pivot_table =
  p_index :: "string list"
  p_columns :: "int list"
  p_values :: "nat option list list"

text \<open>
  \<open>pivot(index="Month", columns="Year", values="Observations")\<close>: an error when a
  (month, year) pair occurs twice; the labels are sorted; a pair with no row is missing.
\<close>

definition pivot :: "((int \<times> string) \<times> nat) list \<Rightarrow> py_error + pivot_table" where
  "pivot hm =
     (if distinct (map fst hm) then
        (let months = sort (remdups (map (\<lambda>g. snd (fst g)) hm));
             years = sort (remdups (map (\<lambda>g. fst (fst g)) hm))
         in Inr \<lparr>p_index = months, p_columns = years,
                 p_values = map (\<lambda>m. map (\<lambda>y. map_of hm (y, m)) years) months\<rparr>)
      else Inl ValueError)"

definition fillna0 :: "pivot_table \<Rightarrow> pivot_table" where
  "fillna0 p =
     p\<lparr>p_values := map (map (\<lambda>c. case c of None \<Rightarrow> Some 0 | Some v \<Rightarrow> Some v)) (p_values p)\<rparr>"

text \<open>
  \<open>reindex(labels)\<close>: the rows in the order of \<open>labels\<close>; a label the table does not
  have gets a row of missing cells. An error when the table's labels repeat.
\<close>

definition reindex :: "string list \<Rightarrow> pivot_table \<Rightarrow> py_error + pivot_table" where
  "reindex labels p =
     (if distinct (p_index p) then
        Inr (p\<lparr>p_index := labels,
               p_values := map (\<lambda>l. case map_of (zip (p_index p) (p_values p)) l of
                                        None \<Rightarrow> replicate (length (p_columns p)) None
                                      | Some cells \<Rightarrow> cells) labels\<rparr>)
      else Inl ValueError)"

definition month_labels :: "string list" where
  "month_labels = [''Jan'', ''Feb'', ''Mar'', ''Apr'', ''May'', ''Jun'',
                   ''Jul'', ''Aug'', ''Sep'', ''Oct'', ''Nov'', ''Dec'']"

definition heat_pivot :: "dataframe \<Rightarrow> py_error + pivot_table" where
  "heat_pivot filtered_df =
     (case pivot (heatmap_df filtered_df) of
        Inl e \<Rightarrow> Inl e
      | Inr p \<Rightarrow> reindex month_labels (fillna0 p))"

text \<open>The cell of a pivoted table at a row label and a column label, if both exist.\<close>

definition cell :: "pivot_table \<Rightarrow> string \<Rightarrow> int \<Rightarrow> nat option option" where
  "cell p m y =
     (case map_of (zip (p_index p) (p_values p)) m of
        None \<Rightarrow> None
      | Some cells \<Rightarrow> map_of (zip (p_columns p) cells) y)"

section \<open>Export\<close>

text \<open>
  \<open>filtered_df.to_csv(index=False)\<close> writes a header row with the column labels and
  one row for each row of the frame, through the \<open>csv\<close> writer with its default
  dialect: fields separated by commas, a field quoted when it holds a comma, a quote or
  a line break, quotes inside a quoted field doubled, rows ended by a line feed. How a
  number or a timestamp is printed is the library's business and a parameter here; a
  missing value is printed as the empty text. Texts are strings of bytes, so
  \<open>.encode("utf-8")\<close> changes nothing.
\<close>

definition comma :: char where
  "comma = CHR '',''"

definition dquote :: char where
  "dquote = CHR 0x22"

definition newline :: char where
  "newline = CHR 0x0A"

definition creturn :: char where
  "creturn = CHR 0x0D"

definition needs_quotes :: "string \<Rightarrow> bool" where
  "needs_quotes f = list_ex (\<lambda>c. c = comma \<or> c = dquote \<or> c = newline \<or> c = creturn) f"

fun double_quotes :: "string \<Rightarrow> string" where
  "double_quotes [] = []"
| "double_quotes (c # cs) =
     (if c = dquote then dquote # dquote # double_quotes cs else c # double_quotes cs)"

definition csv_field :: "string \<Rightarrow> string" where
  "csv_field f = (if needs_quotes f then dquote # double_quotes f @ [dquote] else f)"

fun join_fields :: "string list \<Rightarrow> string" where
  "join_fields [] = []"
| "join_fields [f] = f"
| "join_fields (f # g # fs) = f @ comma # join_fields (g # fs)"

text \<open>A row of one empty field is written as a pair of quotes.\<close>

definition writerow :: "string list \<Rightarrow> string" where
  "writerow fs =
     (if fs = [[]] then [dquote, dquote, newline]
      else join_fields (map csv_field fs) @ [newline])"








section \<open>Sample data\<close>

text \<open>
  Three sightings of one species on two plots, and one record with no date, used to run
  the definitions on concrete input.
\<close>

definition blank :: row where
  "blank =
     \<lparr>Plot_Name = None, Date = None, Observer = None, Common_Name = None,
      Scientific_Name = None, Distance = None, Sex = None, Temperature = None,
      Humidity = None, Sky = None, Wind = None, Start_Time = None, End_Time = None,
      PIF_Watchlist_Status = None, Year = None, Month = None\<rparr>"

definition sighting :: "string \<Rightarrow> string \<Rightarrow> string \<Rightarrow> int \<Rightarrow> month \<Rightarrow> string \<Rightarrow> nat \<Rightarrow> row" where
  "sighting plot who name y m mname d =
     blank\<lparr>Plot_Name := Some plot, Observer := Some who, Common_Name := Some name,
       Date := Some \<lparr>ts_year = y, ts_month = m, ts_day = d, ts_nanos = 0\<rparr>,
       Year := Some y, Month := Some mname\<rparr>"

definition robin1 :: row where
  "robin1 = sighting ''A'' ''Kim'' ''Robin'' 2020 Mar ''Mar'' 5"

definition robin2 :: row where
  "robin2 = sighting ''B'' ''Lee'' ''Robin'' 2020 Jun ''Jun'' 15"

definition robin3 :: row where
  "robin3 = sighting ''A'' ''Lee'' ''Robin'' 2021 Jun ''Jun'' 20"

definition undated :: row where
  "undated = blank\<lparr>Plot_Name := Some ''B'', Observer := Some ''Kim'', Common_Name := Some ''Wren''\<rparr>"

definition sightings :: dataframe where
  "sightings =
     \<lparr>columns = source_columns @ [''Year'', ''Month''],
      body = [(0, robin1), (1, robin2), (2, robin3), (3, undated)]\<rparr>"


definition partly_measured :: dataframe where
  "partly_measured = sightings\<lparr>body := [(0, robin1\<lparr>Temperature := Some 21.5\<rparr>), (1, robin2)]\<rparr>"

definition stored :: "string \<Rightarrow> string option \<Rightarrow> string observation" where
  "stored name d =
     \<lparr>Plot_Name = Some ''A'', Date = d, Observer = Some ''Kim'', Common_Name = Some name,
      Scientific_Name = None, Distance = None, Sex = None, Temperature = Some 21.5,
      Humidity = None, Sky = None, Wind = None, Start_Time = None, End_Time = None,
      PIF_Watchlist_Status = Some 0\<rparr>"

definition result_set :: "string observation list" where
  "result_set = [stored ''Robin'' (Some ''2020-03-05''), stored ''Wren, House'' (Some ''n/a''),
                 stored ''Finch'' None]"

definition parse_iso :: "string \<Rightarrow> timestamp option" where
  "parse_iso s =
     (if s = ''2020-03-05''
      then Some \<lparr>ts_year = 2020, ts_month = Mar, ts_day = 5, ts_nanos = 0\<rparr>
      else None)"


definition day :: "int \<Rightarrow> month \<Rightarrow> nat \<Rightarrow> date" where
  "day y m d = \<lparr>d_year = y, d_month = m, d_day = d\<rparr>"

section \<open>Properties of the filter\<close>

lemmas sample_defs = sightings_def robin1_def robin2_def robin3_def undated_def sighting_def
  blank_def source_columns_def day_def

lemmas filter_defs = apply_filters_def filter_observers_def filter_plots_def filter_species_def
  filter_dates_def select_rows_def reset_index_drop_def copy_def isin_def in_range_def
  ge_ts_def le_ts_def ts_le_def to_datetime_date_def rows_def

lemma rows_select: "rows (select_rows p df) = filter p (rows df)"
  by (simp add: rows_def select_rows_def filter_map comp_def)

lemma rows_reset: "rows (reset_index_drop df) = rows df"
  by (simp add: rows_def reset_index_drop_def)

lemma columns_select: "columns (select_rows p df) = columns df"
  by (simp add: select_rows_def)

lemma columns_reset: "columns (reset_index_drop df) = columns df"
  by (simp add: reset_index_drop_def)

lemma filter_snd_zip: "(\<forall>x\<in>set xs. P x) \<Longrightarrow> filter (\<lambda>ir. P (snd ir)) (zip is xs) = zip is xs"
  by (auto simp: filter_id_conv dest: set_zip_rightD)

lemma select_select: "select_rows p (select_rows q d) = select_rows (\<lambda>r. q r \<and> p r) d"
  by (simp add: select_rows_def)

lemma select_True: "select_rows (\<lambda>r. True) d = d"
  by (simp add: select_rows_def)

lemma satisfies_date:
  "(case dr of DateList [lo, hi] \<Rightarrow> in_range lo hi r | other \<Rightarrow> True) =
   (if isinstance_list dr \<and> length (items dr) = 2 then in_range (items dr ! 0) (items dr ! 1) r else True)"
  by (cases dr) (auto split: list.splits)

lemma apply_filters_char:
  "apply_filters df obs pl sp dr = reset_index_drop (select_rows (satisfies obs pl sp dr) df)"
proof -
  have o: "filter_observers obs df = select_rows (\<lambda>r. obs = [] \<or> isin (Observer r) obs) df"
    by (simp add: filter_observers_def select_True)
  have p: "\<And>d. filter_plots pl d = select_rows (\<lambda>r. pl = [] \<or> isin (Plot_Name r) pl) d"
    by (simp add: filter_plots_def select_True)
  have s: "\<And>d. filter_species sp d = select_rows (\<lambda>r. sp = [] \<or> isin (Common_Name r) sp) d"
    by (simp add: filter_species_def select_True)
  have d: "\<And>d. filter_dates dr d =
      select_rows (\<lambda>r. case dr of DateList [lo, hi] \<Rightarrow> in_range lo hi r | other \<Rightarrow> True) d"
    unfolding satisfies_date by (auto simp: filter_dates_def select_rows_def)
  show ?thesis
    unfolding apply_filters_def copy_def o p s d select_select satisfies_def
    by (simp add: conj_assoc)
qed

lemma reset_select_idem:
  "reset_index_drop (select_rows P (reset_index_drop (select_rows P df))) =
   reset_index_drop (select_rows P df)"
proof -
  have "\<forall>x\<in>set (map snd (filter (\<lambda>ir. P (snd ir)) (body df))). P x" by auto
  then show ?thesis
    by (simp add: reset_index_drop_def select_rows_def filter_snd_zip)
qed

text \<open>
  Claim C1. Whatever the frame and the four filter inputs, the rows that
  \<open>apply_filters\<close> returns are rows of the frame it was given, in their order and with
  the same columns, and filtering the result again with the same inputs returns the
  result itself, index labels included.
\<close>

theorem apply_filters_subset_idempotent:
  "subseq (rows (apply_filters df observers plots species date_range)) (rows df) \<and>
   set (rows (apply_filters df observers plots species date_range)) \<subseteq> set (rows df) \<and>
   columns (apply_filters df observers plots species date_range) = columns df \<and>
   apply_filters (apply_filters df observers plots species date_range)
       observers plots species date_range
     = apply_filters df observers plots species date_range"
  by (auto simp: apply_filters_char rows_reset rows_select columns_reset columns_select reset_select_idem)

theorem apply_filters_subset_idempotent_witness:
  "rows (apply_filters sightings [''Lee''] [] [''Robin''] NoDate) = [robin2, robin3] \<and>
   subseq (rows (apply_filters sightings [''Lee''] [] [''Robin''] NoDate)) (rows sightings) \<and>
   apply_filters (apply_filters sightings [''Lee''] [] [''Robin''] NoDate)
       [''Lee''] [] [''Robin''] NoDate
     = apply_filters sightings [''Lee''] [] [''Robin''] NoDate"
  using apply_filters_subset_idempotent [of sightings "[''Lee'']" "[]" "[''Robin'']" NoDate]
  by (simp add: filter_defs sample_defs)

text \<open>
  Claim C2. An empty selection list for observers, plots or species puts no restriction
  on that dimension: the result is the result of the pipeline with that dimension's
  step removed, and in general the rows kept are those of the frame that satisfy every
  non-empty selection.
\<close>

theorem empty_selection_no_restriction:
  "apply_filters df [] plots species date_range =
     reset_index_drop (filter_dates date_range (filter_species species (filter_plots plots (copy df)))) \<and>
   apply_filters df observers [] species date_range =
     reset_index_drop (filter_dates date_range (filter_species species (filter_observers observers (copy df)))) \<and>
   apply_filters df observers plots [] date_range =
     reset_index_drop (filter_dates date_range (filter_plots plots (filter_observers observers (copy df)))) \<and>
   rows (apply_filters df observers plots species date_range) =
     filter (satisfies observers plots species date_range) (rows df)"
proof (intro conjI)
  show "apply_filters df [] plots species date_range =
     reset_index_drop (filter_dates date_range (filter_species species (filter_plots plots (copy df))))"
    by (simp add: apply_filters_def filter_observers_def)
  show "apply_filters df observers [] species date_range =
     reset_index_drop (filter_dates date_range (filter_species species (filter_observers observers (copy df))))"
    by (simp add: apply_filters_def filter_plots_def)
  show "apply_filters df observers plots [] date_range =
     reset_index_drop (filter_dates date_range (filter_plots plots (filter_observers observers (copy df))))"
    by (simp add: apply_filters_def filter_species_def)
  show "rows (apply_filters df observers plots species date_range) =
     filter (satisfies observers plots species date_range) (rows df)"
    by (simp add: apply_filters_char rows_reset rows_select)
qed

theorem empty_selection_no_restriction_witness:
  "apply_filters sightings [] [''A''] [] NoDate =
     reset_index_drop (filter_dates NoDate (filter_species [] (filter_plots [''A''] (copy sightings)))) \<and>
   rows (apply_filters sightings [] [''A''] [] NoDate) = [robin1, robin3] \<and>
   filter (satisfies [] [''A''] [] NoDate) (rows sightings) = [robin1, robin3]"
  using empty_selection_no_restriction [where df = sightings and plots = "[''A'']" and species = "[]"
      and date_range = NoDate and observers = "[]"]
  by (simp add: filter_defs sample_defs satisfies_def)







text \<open>
  Claim C8. \<open>apply_filters\<close> does not change the frame it is given: run on a store,
  it returns a reference to a new object holding the filtered frame, and every object
  that was in the store before, the loaded frame among them, is as it was.
\<close>

theorem apply_filters_frame:
  assumes "df < length s"
  shows "\<exists>out s'. apply_filters_st s df observers plots species date_range = Some (out, s') \<and>
           take (length s) s' = s \<and> s' ! df = s ! df \<and>
           length s \<le> out \<and> out < length s' \<and>
           s' ! out = apply_filters (s ! df) observers plots species date_range"
proof -
  define s0 where "s0 = s @ [copy (s ! df)]"
  define f0 where "f0 = length s"
  define st1 where "st1 = (if observers \<noteq> [] then select_st (\<lambda>r. isin (Observer r) observers) s0 f0 else (f0, s0))"
  define st2 where "st2 = (if plots \<noteq> [] then select_st (\<lambda>r. isin (Plot_Name r) plots) (snd st1) (fst st1) else st1)"
  define st3 where "st3 = (if species \<noteq> [] then select_st (\<lambda>r. isin (Common_Name r) species) (snd st2) (fst st2) else st2)"
  define st4 where "st4 = (if isinstance_list date_range \<and> length (items date_range) = 2
      then select_st (in_range (items date_range ! 0) (items date_range ! 1)) (snd st3) (fst st3) else st3)"
  define I where "I = (\<lambda>(st :: ref \<times> store) v. take (length s) (snd st) = s \<and> length s \<le> fst st \<and> fst st < length (snd st) \<and> snd st ! fst st = v)"
  have i0: "I (f0, s0) (copy (s ! df))"
    by (simp add: I_def s0_def f0_def)
  have step: "\<And>st v p. I st v \<Longrightarrow> I (select_st p (snd st) (fst st)) (select_rows p v)"
    by (auto simp: I_def select_st_def alloc_def nth_append)
  have i1: "I st1 (filter_observers observers (copy (s ! df)))"
    using i0 step[OF i0] by (simp add: st1_def filter_observers_def)
  have i2: "I st2 (filter_plots plots (filter_observers observers (copy (s ! df))))"
    using i1 step[OF i1] by (simp add: st2_def filter_plots_def)
  have i3: "I st3 (filter_species species (filter_plots plots (filter_observers observers (copy (s ! df)))))"
    using i2 step[OF i2] by (simp add: st3_def filter_species_def)
  have i4: "I st4 (filter_dates date_range (filter_species species (filter_plots plots (filter_observers observers (copy (s ! df))))))"
    using i3 step[OF i3] by (simp add: st4_def filter_dates_def)
  have run: "apply_filters_st s df observers plots species date_range = Some (reset_index_st (snd st4) (fst st4))"
    using assms
    by (simp add: apply_filters_st_def copy_st_def alloc_def Let_def split_beta
        st4_def st3_def st2_def st1_def s0_def f0_def)
  have fin: "I (reset_index_st (snd st4) (fst st4)) (apply_filters (s ! df) observers plots species date_range)"
    using i4 by (auto simp: I_def reset_index_st_def alloc_def nth_append apply_filters_def)
  obtain out s' where os: "reset_index_st (snd st4) (fst st4) = (out, s')"
    by (cases "reset_index_st (snd st4) (fst st4)")
  have "s' ! df = s ! df"
    using fin assms unfolding os I_def by (metis (no_types, lifting) nth_take snd_conv split_conv)
  with fin run os show ?thesis by (auto simp: I_def)
qed

theorem apply_filters_frame_witness:
  "(0::nat) < length [sightings] \<and>
   (\<exists>out s'. apply_filters_st [sightings] 0 [] [''A''] [] NoDate = Some (out, s') \<and>
      take (length [sightings]) s' = [sightings] \<and> s' ! 0 = [sightings] ! 0 \<and>
      length [sightings] \<le> out \<and> out < length s' \<and>
      s' ! out = apply_filters ([sightings] ! 0) [] [''A''] [] NoDate) \<and>
   apply_filters_st [sightings] 0 [] [''A''] [] NoDate =
     Some (3, [sightings, sightings, sightings\<lparr>body := [(0, robin1), (2, robin3)]\<rparr>,
               sightings\<lparr>body := [(0, robin1), (1, robin3)]\<rparr>])"
proof -
  have h: "(0::nat) < length [sightings]" by simp
  have run: "apply_filters_st [sightings] 0 [] [''A''] [] NoDate =
     Some (3, [sightings, sightings, sightings\<lparr>body := [(0, robin1), (2, robin3)]\<rparr>,
               sightings\<lparr>body := [(0, robin1), (1, robin3)]\<rparr>])"
    by (simp add: apply_filters_st_def copy_st_def select_st_def reset_index_st_def alloc_def
        filter_defs sample_defs)
  show ?thesis using apply_filters_frame [OF h, where observers = "[]" and plots = "[''A'']" and species = "[]"
      and date_range = NoDate] h run by simp
qed

section \<open>Properties of the loader\<close>

text \<open>
  With \<open>Coerce\<close> the conversion always returns; with \<open>Raise\<close> one unreadable text
  would end it with an error.
\<close>

lemma to_datetime_coerce:
  "to_datetime Coerce parse vs = Inr (map (\<lambda>v. case v of None \<Rightarrow> None | Some s \<Rightarrow> parse s) vs)"
  by (induction vs) (auto split: option.splits)

lemma to_datetime_raise:
  "Some s \<in> set vs \<Longrightarrow> parse s = None \<Longrightarrow> to_datetime Raise parse vs = Inl ParserError"
proof (induction vs)
  case Nil
  then show ?case by simp
next
  case (Cons a vs)
  show ?case
  proof (cases a)
    case None
    with Cons show ?thesis by simp
  next
    case (Some u)
    show ?thesis
    proof (cases "parse u")
      case None
      with Some show ?thesis by simp
    next
      case (Some t)
      with \<open>a = Some u\<close> Cons show ?thesis by auto
    qed
  qed
qed

lemma load_data_rows:
  "load_data parse rs =
     Inr \<lparr>columns = source_columns @ [''Year'', ''Month''],
          body = zip [0..<length rs] (map (\<lambda>r. with_dates r (coerced parse (Date r))) rs)\<rparr>"
proof -
  have "map2 with_dates rs (map (\<lambda>v. case v of None \<Rightarrow> None | Some s \<Rightarrow> parse s) (map Date rs))
      = map (\<lambda>r. with_dates r (coerced parse (Date r))) rs"
    by (induction rs) (simp_all add: coerced_def)
  then show ?thesis
    by (simp add: load_data_def to_datetime_coerce)
qed

text \<open>
  Claim C9. \<open>load_data\<close> does not fail on a date it cannot read: it returns a frame
  with one row for each stored row, in order; a row whose stored date is missing or
  unreadable has the missing marker in \<open>Date\<close>, \<open>Year\<close> and \<open>Month\<close>; a row whose date
  is read has that timestamp, its year and its month abbreviation; every other column
  is as stored.
\<close>

theorem load_data_coerces_dates:
  "\<exists>df. load_data parse rs = Inr df \<and> len df = length rs \<and>
     columns df = source_columns @ [''Year'', ''Month''] \<and>
     map fst (body df) = [0..<length rs] \<and>
     (\<forall>i<length rs.
        (coerced parse (Date (rs ! i)) = None \<longrightarrow>
           Date (rows df ! i) = None \<and> Year (rows df ! i) = None \<and> Month (rows df ! i) = None) \<and>
        (\<forall>t. coerced parse (Date (rs ! i)) = Some t \<longrightarrow>
           Date (rows df ! i) = Some t \<and> Year (rows df ! i) = Some (ts_year t) \<and>
           Month (rows df ! i) = Some (strftime_b (ts_month t))) \<and>
        Plot_Name (rows df ! i) = Plot_Name (rs ! i) \<and>
        Observer (rows df ! i) = Observer (rs ! i) \<and>
        Common_Name (rows df ! i) = Common_Name (rs ! i) \<and>
        Scientific_Name (rows df ! i) = Scientific_Name (rs ! i) \<and>
        Distance (rows df ! i) = Distance (rs ! i) \<and>
        Sex (rows df ! i) = Sex (rs ! i) \<and>
        Temperature (rows df ! i) = Temperature (rs ! i) \<and>
        Humidity (rows df ! i) = Humidity (rs ! i) \<and>
        Sky (rows df ! i) = Sky (rs ! i) \<and>
        Wind (rows df ! i) = Wind (rs ! i) \<and>
        Start_Time (rows df ! i) = Start_Time (rs ! i) \<and>
        End_Time (rows df ! i) = End_Time (rs ! i) \<and>
        PIF_Watchlist_Status (rows df ! i) = PIF_Watchlist_Status (rs ! i))"
  unfolding load_data_rows
  by (simp add: len_def rows_def with_dates_def)

theorem load_data_coerces_dates_witness:
  "\<exists>df. load_data parse_iso result_set = Inr df \<and> len df = 3 \<and>
     Date (result_set ! 1) = Some ''n/a'' \<and> parse_iso ''n/a'' = None \<and>
     Date (rows df ! 1) = None \<and> Year (rows df ! 1) = None \<and> Month (rows df ! 1) = None \<and>
     Common_Name (rows df ! 1) = Some ''Wren, House'' \<and>
     Date (rows df ! 0) = Some \<lparr>ts_year = 2020, ts_month = Mar, ts_day = 5, ts_nanos = 0\<rparr> \<and>
     Year (rows df ! 0) = Some 2020 \<and> Month (rows df ! 0) = Some ''Mar''"
proof -
  have n: "length result_set = 3" by (simp add: result_set_def)
  obtain df where df: "load_data parse_iso result_set = Inr df" "len df = length result_set"
    and each: "\<forall>i<length result_set.
        (coerced parse_iso (Date (result_set ! i)) = None \<longrightarrow>
           Date (rows df ! i) = None \<and> Year (rows df ! i) = None \<and> Month (rows df ! i) = None) \<and>
        (\<forall>t. coerced parse_iso (Date (result_set ! i)) = Some t \<longrightarrow>
           Date (rows df ! i) = Some t \<and> Year (rows df ! i) = Some (ts_year t) \<and>
           Month (rows df ! i) = Some (strftime_b (ts_month t))) \<and>
        Common_Name (rows df ! i) = Common_Name (result_set ! i)"
    using load_data_coerces_dates [of parse_iso result_set] by blast
  have c1: "coerced parse_iso (Date (result_set ! 1)) = None"
    by (simp add: result_set_def stored_def coerced_def parse_iso_def)
  have c0: "coerced parse_iso (Date (result_set ! 0)) =
      Some \<lparr>ts_year = 2020, ts_month = Mar, ts_day = 5, ts_nanos = 0\<rparr>"
    by (simp add: result_set_def stored_def coerced_def parse_iso_def)
  have r1: "Date (result_set ! 1) = Some ''n/a''" "parse_iso ''n/a'' = None"
    "Common_Name (result_set ! 1) = Some ''Wren, House''"
    by (simp_all add: result_set_def stored_def parse_iso_def)
  from each n have e1: "Date (rows df ! 1) = None \<and> Year (rows df ! 1) = None \<and>
      Month (rows df ! 1) = None \<and> Common_Name (rows df ! 1) = Some ''Wren, House''"
    using c1 r1 by (metis one_less_numeral_iff semiring_norm(77))
  from each n c0 have e0: "Date (rows df ! 0) = Some \<lparr>ts_year = 2020, ts_month = Mar, ts_day = 5, ts_nanos = 0\<rparr> \<and>
     Year (rows df ! 0) = Some 2020 \<and> Month (rows df ! 0) = Some ''Mar''"
    by (metis strftime_b.simps(3) timestamp.select_convs(1) timestamp.select_convs(2) zero_less_numeral)
  from df n e1 e0 r1 show ?thesis by auto
qed

section \<open>Properties of the aggregates\<close>

text \<open>Order, size and content of the tables of counts.\<close>

lemma descending_sort_desc: "descending (sort_desc kcs)"
proof -
  have "sorted (map (\<lambda>kc. - int (snd kc)) (sort_key (\<lambda>kc. - int (snd kc)) kcs))"
    by (rule sorted_sort_key)
  then show ?thesis
    by (simp add: descending_def sort_desc_def sorted_map)
qed

lemma descending_nlargest: "descending (nlargest n kcs)"
  using descending_sort_desc [of kcs]
  by (simp add: nlargest_def descending_def sorted_wrt_take)

lemma length_nlargest: "length (nlargest n kcs) \<le> n"
  by (simp add: nlargest_def)

lemma set_sort_desc: "set (sort_desc kcs) = set kcs"
  by (simp add: sort_desc_def)

lemma distinct_sort_desc: "distinct (map fst (sort_desc kcs)) = distinct (map fst kcs)"
  by (simp add: sort_desc_def distinct_map)

lemma set_nlargest: "set (nlargest n kcs) \<subseteq> set kcs"
  using set_take_subset [of n "sort_desc kcs"] by (simp add: nlargest_def set_sort_desc)

lemma distinct_nlargest: "distinct (map fst kcs) \<Longrightarrow> distinct (map fst (nlargest n kcs))"
  by (simp add: nlargest_def take_map [symmetric] distinct_sort_desc)

lemma keys_bump: "fst ` set (bump k acc) = insert k (fst ` set acc)"
  by (induction acc) force+

lemma distinct_bump: "distinct (map fst acc) \<Longrightarrow> distinct (map fst (bump k acc))"
proof (induction acc)
  case Nil
  then show ?case by simp
next
  case (Cons a acc)
  obtain k' c where a: "a = (k', c)" by (cases a)
  show ?case
  proof (cases "k = k'")
    case True
    with Cons a show ?thesis by simp
  next
    case False
    have "k' \<notin> fst ` set (bump k acc)"
      using Cons.prems a False by (simp add: keys_bump)
    with Cons a False show ?thesis by simp
  qed
qed

lemma map_of_bump:
  "map_of (bump k acc) j =
     (if j = k then Some (case map_of acc k of None \<Rightarrow> 1 | Some c \<Rightarrow> c + 1) else map_of acc j)"
  by (induction acc) auto

lemma tally_bump: "tally (bump k acc) j = (if j = k then tally acc k + 1 else tally acc j)"
  by (simp add: tally_def map_of_bump split: option.splits)

lemma distinct_count_values:
  "distinct (map fst acc) \<Longrightarrow> distinct (map fst (count_values acc vs))"
  by (induction acc vs rule: count_values.induct) (simp_all add: distinct_bump)

lemma keys_count_values:
  "fst ` set (count_values acc vs) = fst ` set acc \<union> {k. Some k \<in> set vs}"
  by (induction acc vs rule: count_values.induct) (auto simp: keys_bump)

lemma tally_count_values:
  "tally (count_values acc vs) k = tally acc k + count_list vs (Some k)"
  by (induction acc vs rule: count_values.induct) (auto simp: tally_bump)

lemma count_values_entry:
  assumes "(k, c) \<in> set (count_values [] vs)"
  shows "c = count_list vs (Some k)"
proof -
  have "distinct (map fst (count_values [] vs))"
    by (rule distinct_count_values) simp
  with assms have "map_of (count_values [] vs) k = Some c" by simp
  then have "tally (count_values [] vs) k = c" by (simp add: tally_def)
  then show ?thesis using tally_count_values [of "[]" vs k] by (simp add: tally_def)
qed

lemma value_counts_entry: "kc \<in> set (value_counts vs) \<Longrightarrow> snd kc = count_list vs (Some (fst kc))"
  using count_values_entry [of "fst kc" "snd kc" vs] by (simp add: value_counts_def set_sort_desc)

lemma distinct_value_counts: "distinct (map fst (value_counts vs))"
  by (simp add: value_counts_def distinct_sort_desc distinct_count_values)

lemma top_entry:
  "kc \<in> set (nlargest n (value_counts vs)) \<Longrightarrow> snd kc = count_list vs (Some (fst kc))"
  using set_nlargest [of n "value_counts vs"] value_counts_entry [of kc vs] by blast

text \<open>
  Claim C4. The top-10 table of the pie chart and the top-15 table of the bar chart
  have at most 10 and 15 groups, in order of descending count; the groups are distinct
  species, each with the number of rows of that species. Both tables are functions of
  the \<open>Common_Name\<close> column alone, with no random source: frames that agree on that
  column give the same tables, so evaluating again on the same input gives the same
  result.
\<close>

theorem top_species_bounded_descending:
  "length (pie_data df) \<le> 10 \<and> length (bar_df df) \<le> 15 \<and>
   descending (pie_data df) \<and> descending (bar_df df) \<and>
   distinct (map fst (pie_data df)) \<and> distinct (map fst (bar_df df)) \<and>
   (\<forall>kc \<in> set (pie_data df) \<union> set (bar_df df).
      snd kc = count_list (map Common_Name (rows df)) (Some (fst kc))) \<and>
   (\<forall>df'. map Common_Name (rows df') = map Common_Name (rows df) \<longrightarrow>
      pie_data df' = pie_data df \<and> bar_df df' = bar_df df)"
proof (intro conjI)
  show "length (pie_data df) \<le> 10" "length (bar_df df) \<le> 15"
    by (simp_all add: pie_data_def bar_df_def length_nlargest)
  show "descending (pie_data df)" "descending (bar_df df)"
    by (simp_all add: pie_data_def bar_df_def descending_nlargest)
  show "distinct (map fst (pie_data df))" "distinct (map fst (bar_df df))"
    by (simp_all add: pie_data_def bar_df_def distinct_nlargest distinct_value_counts)
  show "\<forall>kc \<in> set (pie_data df) \<union> set (bar_df df).
      snd kc = count_list (map Common_Name (rows df)) (Some (fst kc))"
    by (auto simp only: pie_data_def bar_df_def dest: top_entry)
  show "\<forall>df'. map Common_Name (rows df') = map Common_Name (rows df) \<longrightarrow>
      pie_data df' = pie_data df \<and> bar_df df' = bar_df df"
    by (simp add: pie_data_def bar_df_def)
qed

lemma pie_sample: "pie_data sightings = [(''Robin'', 3), (''Wren'', 1)]"
  by (simp add: pie_data_def nlargest_def value_counts_def sort_desc_def rows_def sample_defs)

lemma bar_sample: "bar_df sightings = [(''Robin'', 3), (''Wren'', 1)]"
  by (simp add: bar_df_def nlargest_def value_counts_def sort_desc_def rows_def sample_defs)

theorem top_species_bounded_descending_witness:
  "pie_data sightings = [(''Robin'', 3), (''Wren'', 1)] \<and>
   bar_df sightings = [(''Robin'', 3), (''Wren'', 1)] \<and>
   length (pie_data sightings) \<le> 10 \<and> length (bar_df sightings) \<le> 15 \<and>
   descending (pie_data sightings) \<and> descending (bar_df sightings) \<and>
   count_list (map Common_Name (rows sightings)) (Some ''Robin'') = 3 \<and>
   pie_data (reset_index_drop sightings) = pie_data sightings"
proof -
  note t = top_species_bounded_descending [of sightings]
  note r = t [THEN conjunct2]
  note r2 = r [THEN conjunct2]
  note r3 = r2 [THEN conjunct2]
  note r6 = r3 [THEN conjunct2, THEN conjunct2, THEN conjunct2]
  have a: "length (pie_data sightings) \<le> 10" "length (bar_df sightings) \<le> 15"
    "descending (pie_data sightings)" "descending (bar_df sightings)"
    by (rule t [THEN conjunct1], rule r [THEN conjunct1], rule r2 [THEN conjunct1],
        rule r3 [THEN conjunct1])
  have "(''Robin'', 3) \<in> set (pie_data sightings) \<union> set (bar_df sightings)"
    by (simp add: pie_sample)
  with r6 [THEN conjunct1]
  have "snd (''Robin'', 3::nat) =
      count_list (map Common_Name (rows sightings)) (Some (fst (''Robin'', 3::nat)))"
    by (rule bspec)
  then have b: "count_list (map Common_Name (rows sightings)) (Some ''Robin'') = 3"
    by simp
  have "map Common_Name (rows (reset_index_drop sightings)) = map Common_Name (rows sightings) \<longrightarrow>
      pie_data (reset_index_drop sightings) = pie_data sightings \<and>
      bar_df (reset_index_drop sightings) = bar_df sightings"
    using r6 [THEN conjunct2] by (rule spec)
  then have c: "pie_data (reset_index_drop sightings) = pie_data sightings"
    by (simp only: rows_reset simp_thms)
  from a b c pie_sample bar_sample show ?thesis by (intro conjI)
qed






text \<open>
  The pivot never fails and always has the twelve month rows, in calendar order.
\<close>

lemma groupby_size_keys:
  "map fst (groupby_size ks) =
     sort (remdups (concat (map (\<lambda>k. case k of None \<Rightarrow> [] | Some x \<Rightarrow> [x]) ks)))"
  by (simp add: groupby_size_def Let_def comp_def)

lemma distinct_groupby_size: "distinct (map fst (groupby_size ks))"
  by (simp add: groupby_size_keys)

lemma reindex_rows:
  "distinct (p_index p) \<Longrightarrow>
   \<exists>q. reindex labels p = Inr q \<and> p_index q = labels \<and> length (p_values q) = length labels \<and>
       p_columns q = p_columns p"
  by (simp add: reindex_def)

lemma heat_pivot_twelve_rows:
  "\<exists>p. heat_pivot df = Inr p \<and> p_index p = month_labels \<and> length (p_values p) = 12"
proof -
  obtain p where p: "pivot (heatmap_df df) = Inr p" "distinct (p_index p)"
    by (simp add: pivot_def heatmap_df_def distinct_groupby_size Let_def)
  then have "distinct (p_index (fillna0 p))" by (simp add: fillna0_def)
  from reindex_rows [OF this, of month_labels] p show ?thesis
    by (auto simp: heat_pivot_def month_labels_def)
qed

lemma present_keys:
  "(x \<in> set (concat (map (\<lambda>k. case k of None \<Rightarrow> [] | Some x \<Rightarrow> [x]) ks))) = (Some x \<in> set ks)"
  by (induction ks) (auto split: option.splits)

lemma groupby_size_key: "(k \<in> fst ` set (groupby_size ks)) = (Some k \<in> set ks)"
proof -
  have "(k \<in> set (map fst (groupby_size ks))) = (Some k \<in> set ks)"
    unfolding groupby_size_keys by (simp add: present_keys)
  then show ?thesis by simp
qed

lemma year_month_Some: "(year_month r = Some (y, m)) = (Year r = Some y \<and> Month r = Some m)"
  by (auto simp: year_month_def split: option.splits)

lemma heatmap_months:
  assumes "((y, m), c) \<in> set (heatmap_df df)"
  shows "\<exists>r\<in>set (rows df). Year r = Some y \<and> Month r = Some m"
proof -
  from assms have "(y, m) \<in> fst ` set (heatmap_df df)" by force
  then have "Some (y, m) \<in> set (map year_month (rows df))"
    by (simp only: heatmap_df_def groupby_size_key)
  then obtain r where "r \<in> set (rows df)" "year_month r = Some (y, m)" by auto
  then show ?thesis by (auto simp: year_month_Some)
qed

lemma pivot_shape:
  "distinct (map fst hm) \<Longrightarrow>
   \<exists>p. pivot hm = Inr p \<and> p_index p = sort (remdups (map (\<lambda>g. snd (fst g)) hm)) \<and>
       length (p_values p) = length (p_index p)"
  by (simp add: pivot_def Let_def)

lemma fillna0_shape:
  "p_index (fillna0 p) = p_index p \<and> p_columns (fillna0 p) = p_columns p \<and>
   length (p_values (fillna0 p)) = length (p_values p)"
  by (simp add: fillna0_def)

lemma reindex_new_label:
  assumes len: "length (p_values p) = length (p_index p)"
    and q: "reindex labels p = Inr q"
    and m: "m \<in> set labels" "m \<notin> set (p_index p)"
    and y: "y \<in> set (p_columns q)"
  shows "cell q m y = Some None"
proof -
  define F where "F = (\<lambda>l. case map_of (zip (p_index p) (p_values p)) l of
                  None \<Rightarrow> replicate (length (p_columns p)) (None :: nat option)
                | Some cells \<Rightarrow> cells)"
  have qq: "p_index q = labels" "p_values q = map F labels" "p_columns q = p_columns p"
    using q by (auto simp: reindex_def F_def split: if_splits)
  have "map_of (zip (p_index p) (p_values p)) m = None"
    using m(2) len by (simp add: map_of_zip_is_None)
  then have row: "F m = map (\<lambda>c. None) (p_columns p)"
    by (simp add: F_def map_replicate_const)
  have "map_of (zip (p_index q) (p_values q)) m = Some (F m)"
    using m(1) by (simp add: qq map_of_zip_map)
  moreover have "map_of (zip (p_columns p) (map (\<lambda>c. None :: nat option) (p_columns p))) y = Some None"
    using y by (simp add: qq map_of_zip_map)
  ultimately show ?thesis
    by (simp add: cell_def row qq)
qed

text \<open>
  In general: a month of the twelve that no dated record has gets a row of missing
  cells, one for each year of the table.
\<close>

lemma heat_pivot_absent_month:
  assumes m: "m \<in> set month_labels"
    and absent: "\<forall>r\<in>set (rows df). Year r = None \<or> Month r \<noteq> Some m"
    and q: "heat_pivot df = Inr q"
    and y: "y \<in> set (p_columns q)"
  shows "cell q m y = Some None"
proof -
  have "distinct (map fst (heatmap_df df))"
    by (simp add: heatmap_df_def distinct_groupby_size)
  from pivot_shape [OF this] obtain p where p: "pivot (heatmap_df df) = Inr p"
    "p_index p = sort (remdups (map (\<lambda>g. snd (fst g)) (heatmap_df df)))"
    "length (p_values p) = length (p_index p)"
    by blast
  have new: "m \<notin> set (p_index (fillna0 p))"
    using heatmap_months [of _ m _ df] absent by (fastforce simp: p(2) fillna0_shape)
  have len: "length (p_values (fillna0 p)) = length (p_index (fillna0 p))"
    by (simp add: fillna0_shape p(3))
  have re: "reindex month_labels (fillna0 p) = Inr q"
    using q by (simp add: heat_pivot_def p(1))
  from reindex_new_label [OF len re m new y] show ?thesis .
qed

text \<open>
  Claim C5. The pivot has the twelve month rows, but a month that occurs in no record
  is not zero-filled: \<open>fillna(0)\<close> runs before \<open>reindex\<close>, so the rows that
  \<open>reindex\<close> adds hold missing cells. On the sample data March and June have counts
  (March 2021, with no record, is \<open>0\<close>), the other ten months are missing.
\<close>

theorem heat_pivot_absent_months_missing:
  "\<not> empty_df sightings \<and>
   heat_pivot sightings =
     Inr \<lparr>p_index = month_labels, p_columns = [2020, 2021],
          p_values = [[None, None], [None, None], [Some 1, Some 0], [None, None],
                      [None, None], [Some 1, Some 1], [None, None], [None, None],
                      [None, None], [None, None], [None, None], [None, None]]\<rparr>"
  by (simp add: heat_pivot_def pivot_def heatmap_df_def groupby_size_def year_month_def
      fillna0_def reindex_def month_labels_def rows_def empty_df_def sample_defs)

text \<open>
  When the temperature sample fails, and that the stacked-bar sample, which measures the
  frame it samples, never does.
\<close>

lemma temp_df_fails_iff:
  "(temp_df shuffle df = Inl ValueError) =
   (length (filter (\<lambda>r. Temperature r \<noteq> None \<and> Common_Name r \<noteq> None) (rows df))
      < min 1000 (len df))"
proof -
  have "length (dropna (temperature_species df)) =
      length (filter (\<lambda>r. Temperature r \<noteq> None \<and> Common_Name r \<noteq> None) (rows df))"
    by (simp add: dropna_def temperature_species_def rows_def filter_map comp_def)
  then show ?thesis by (simp add: temp_df_def sample_def)
qed

lemma sb_data_succeeds:
  "sb_data shuffle df = Inr (take (min 1000 (len df)) (shuffle (body df)))"
  by (simp add: sb_data_def sample_def len_def)

text \<open>
  Claim C7. The sample size is taken from the frame before the rows with a missing
  value are dropped. With two records of which one has no temperature, one row is left
  and two are asked for: the call ends with an error, whatever the random source.
\<close>

theorem temp_df_sample_too_large:
  "\<not> empty_df partly_measured \<and>
   length (dropna (temperature_species partly_measured)) = 1 \<and>
   min 1000 (len partly_measured) = 2 \<and>
   temp_df shuffle partly_measured = Inl ValueError"
  by (simp add: temp_df_def sample_def dropna_def temperature_species_def len_def empty_df_def
      partly_measured_def sample_defs del: not_None_eq)

section \<open>Properties of the export\<close>













lemma writerow_quotes:
  "writerow [''A'', ''Wren, House'', []] =
     ''A,'' @ dquote # ''Wren, House'' @ [dquote, comma, newline]"
  by (simp add: writerow_def csv_field_def needs_quotes_def comma_def dquote_def newline_def
      creturn_def)




end
